theory Spec2Isabelle
  imports Complex_Main
begin

section \<open>Conventions of the embedding\<close>

text \<open>
  The three applications are C++ programs over \<open>double\<close>, \<open>int64_t\<close> and the
  types of Eigen, Sophus and theia. In this development a \<open>double\<close> is a \<open>real\<close>:
  rounding is not modelled. The concrete inputs used below are numbers that a
  \<open>double\<close> holds exactly, so that the exact and the rounded computation agree
  there; the one exception is the knot spacing 0.1 s, which the source and the
  specification name themselves.
  A 64-bit integer is an \<open>int\<close> together with an explicit range test wherever the
  program does arithmetic on it. Everything the C++ standard leaves undefined (an
  out-of-range read of a vector, a null pointer that is dereferenced, a signed overflow,
  a function that runs off its end) is a value of the type \<open>failure\<close>, as are the
  fatal \<open>CHECK\<close> of glog and an exception nobody catches.
\<close>

datatype failure =
    CheckFailed string
  | OutOfBounds
  | NullPointer
  | SignedOverflow
  | DivisionByZero
  | OutOfRangeException
  | EarlyReturn string
  | Diverges

section \<open>calibrate\_camera.cc\<close>

subsection \<open>CameraIDToString\<close>

text \<open>
  The enumeration \<open>theia::CameraIntrinsicsModelType\<close> is declared in theia, outside
  the repository. The function only reads three of its values, cast to \<open>int\<close>, so
  they are parameters of the model.
\<close>

record model_type_enum =
  DOUBLE_SPHERE :: int
  DIVISION_UNDISTORTION :: int
  PINHOLE :: int

text \<open>
  The second and third conditions of the source test the enumeration constant itself,
  not the argument. When all three conditions fail the function runs off its end
  without a \<open>return\<close>: the result is \<open>None\<close>.
\<close>

definition CameraIDToString :: "model_type_enum \<Rightarrow> int \<Rightarrow> string option" where
  "CameraIDToString E theia_enum =
     (if theia_enum = DOUBLE_SPHERE E then Some ''DOUBLE_SPHERE''
      else if DIVISION_UNDISTORTION E \<noteq> 0 then Some ''DIVISION_UNDISTORTION''
      else if PINHOLE E \<noteq> 0 then Some ''PINHOLE''
      else None)"

subsection \<open>GetReprojErrorOfView\<close>

type_synonym vec2 = "real \<times> real"
type_synonym vec4 = "real \<times> real \<times> real \<times> real"
type_synonym track_id = nat
type_synonym view_id = nat

text \<open>
  A theia view, as far as the function reads it: its camera and its features, one per
  track, in the order \<open>TrackIds()\<close> lists them. A reconstruction maps view ids to
  views and track ids to homogeneous points; \<open>View\<close> and \<open>Track\<close> return a null
  pointer for an id that is absent.
\<close>

record 'cam theia_view =
  Camera :: 'cam
  Features :: "(track_id \<times> vec2) list"

record 'cam reconstruction =
  View :: "view_id \<rightharpoonup> 'cam theia_view"
  Track :: "track_id \<rightharpoonup> vec4"

text \<open>The Euclidean norm of the difference of two pixel positions.\<close>

definition pixel_distance :: "vec2 \<Rightarrow> vec2 \<Rightarrow> real" where
  "pixel_distance p q = sqrt ((fst p - fst q)\<^sup>2 + (snd p - snd q)\<^sup>2)"

text \<open>
  The value the function returns: a number, or the not-a-number that IEEE arithmetic
  gives for \<open>0.0 / 0\<close>. No other special value arises in the model.
\<close>

datatype double_result = NaN | Finite real

text \<open>
  The loop over the tracks of the view. \<open>ProjectPoint\<close> is the camera model of theia,
  a parameter here.
\<close>

fun accumulate_reproj_error ::
  "('cam \<Rightarrow> vec4 \<Rightarrow> vec2) \<Rightarrow> 'cam \<Rightarrow> (track_id \<rightharpoonup> vec4) \<Rightarrow>
   (track_id \<times> vec2) list \<Rightarrow> real \<Rightarrow> failure + real" where
  "accumulate_reproj_error ProjectPoint cam trk [] view_reproj_error = Inr view_reproj_error"
| "accumulate_reproj_error ProjectPoint cam trk ((tid, feat) # rest) view_reproj_error =
     (case trk tid of
        None \<Rightarrow> Inl NullPointer
      | Some point \<Rightarrow>
          accumulate_reproj_error ProjectPoint cam trk rest
            (view_reproj_error + pixel_distance (ProjectPoint cam point) feat))"

definition GetReprojErrorOfView ::
  "('cam \<Rightarrow> vec4 \<Rightarrow> vec2) \<Rightarrow> 'cam reconstruction \<Rightarrow> view_id \<Rightarrow> failure + double_result" where
  "GetReprojErrorOfView ProjectPoint recon_dataset v_id =
     (case View recon_dataset v_id of
        None \<Rightarrow> Inl NullPointer
      | Some v \<Rightarrow>
          (case accumulate_reproj_error ProjectPoint (Camera v) (Track recon_dataset)
                  (Features v) 0 of
             Inl e \<Rightarrow> Inl e
           | Inr view_reproj_error \<Rightarrow>
               if length (Features v) = 0 then Inr NaN
               else Inr (Finite (view_reproj_error / real (length (Features v))))))"

text \<open>The mean the function is meant to return, written as a sum over the features.\<close>

definition mean_reproj_norm ::
  "('cam \<Rightarrow> vec4 \<Rightarrow> vec2) \<Rightarrow> 'cam \<Rightarrow> (track_id \<rightharpoonup> vec4) \<Rightarrow>
   (track_id \<times> vec2) list \<Rightarrow> real" where
  "mean_reproj_norm ProjectPoint cam trk fs =
     (\<Sum>(tid, feat) \<leftarrow> fs. pixel_distance (ProjectPoint cam (the (trk tid))) feat)
       / real (length fs)"

section \<open>continuous\_time\_imu\_to\_camera\_calibration\_new.cc\<close>

subsection \<open>Vectors, quaternions and rigid transforms\<close>

text \<open>
  \<open>Eigen::Vector3d\<close> with its sum, \<open>Eigen::Quaterniond\<close> with its product and
  conjugate, and the rotation and rigid-transform classes of Sophus, which keep a
  rotation as a unit quaternion. These are library types; the definitions give their
  operations in exact arithmetic.
\<close>

type_synonym vec3 = "real \<times> real \<times> real"

definition vadd :: "vec3 \<Rightarrow> vec3 \<Rightarrow> vec3" where
  "vadd a b = (case a of (ax, ay, az) \<Rightarrow> case b of (bx, by, bz) \<Rightarrow> (ax + bx, ay + by, az + bz))"

definition vscale :: "real \<Rightarrow> vec3 \<Rightarrow> vec3" where
  "vscale c a = (case a of (ax, ay, az) \<Rightarrow> (c * ax, c * ay, c * az))"

definition vcross :: "vec3 \<Rightarrow> vec3 \<Rightarrow> vec3" where
  "vcross a b = (case a of (ax, ay, az) \<Rightarrow> case b of (bx, by, bz) \<Rightarrow>
     (ay * bz - az * by, az * bx - ax * bz, ax * by - ay * bx))"

record quaternion =
  qw :: real
  qx :: real
  qy :: real
  qz :: real

definition qconjugate :: "quaternion \<Rightarrow> quaternion" where
  "qconjugate q = \<lparr>qw = qw q, qx = - qx q, qy = - qy q, qz = - qz q\<rparr>"

definition qmul :: "quaternion \<Rightarrow> quaternion \<Rightarrow> quaternion" where
  "qmul a b =
     \<lparr>qw = qw a * qw b - qx a * qx b - qy a * qy b - qz a * qz b,
      qx = qw a * qx b + qx a * qw b + qy a * qz b - qz a * qy b,
      qy = qw a * qy b + qy a * qw b + qz a * qx b - qx a * qz b,
      qz = qw a * qz b + qz a * qw b + qx a * qy b - qy a * qx b\<rparr>"

text \<open>The rotation of a vector by a unit quaternion, as Eigen computes it.\<close>

definition qrotate :: "quaternion \<Rightarrow> vec3 \<Rightarrow> vec3" where
  "qrotate q v =
     (let u = (qx q, qy q, qz q); uv = vscale 2 (vcross u v)
      in vadd (vadd v (vscale (qw q) uv)) (vcross u uv))"

record SE3 =
  so3 :: quaternion
  translation :: vec3

definition se3_mul :: "SE3 \<Rightarrow> SE3 \<Rightarrow> SE3" where
  "se3_mul a b =
     \<lparr>so3 = qmul (so3 a) (so3 b),
      translation = vadd (translation a) (qrotate (so3 a) (translation b))\<rparr>"

definition se3_inverse :: "SE3 \<Rightarrow> SE3" where
  "se3_inverse a =
     \<lparr>so3 = qconjugate (so3 a),
      translation = qrotate (qconjugate (so3 a)) (vscale (- 1) (translation a))\<rparr>"

subsection \<open>Inputs\<close>

text \<open>
  A view of the calibration dataset, as \<open>main\<close> reads it: the time stamp in seconds
  that \<open>std::stod\<close> parses from its name, its features in the order of \<open>TrackIds()\<close>,
  and the pose \<open>Sophus::SE3(orientation transposed, position)\<close> of its camera.
\<close>

record calib_view =
  Name :: real
  TrackFeatures :: "(track_id \<times> vec2) list"
  CameraPose :: SE3

text \<open>
  One stream of the telemetry: the reader fills \<open>timestamp_ms\<close> and the
  measurements together, so a sample is a pair of the two.
\<close>

type_synonym imu_stream = "(real \<times> vec3) list"

record CameraTelemetryData =
  accelerometer :: imu_stream
  gyroscope :: imu_stream

record SplineWeightingData =
  dt_r3 :: real
  dt_so3 :: real
  var_r3 :: real
  var_so3 :: real

text \<open>
  What the command line and the files give: each reader returns its data, or fails
  (\<open>None\<close>). \<open>ReadIMUBias\<close> gives the gyroscope bias and then the accelerometer bias.
\<close>

record main_inputs =
  imu_bias_file :: "(vec3 \<times> vec3) option"
  input_calibration_dataset :: "calib_view list option"
  gopro_telemetry_json :: "CameraTelemetryData option"
  gyro_to_cam_initial_calibration :: "(quaternion \<times> real) option"
  spline_error_weighting_json_given :: bool
  spline_error_weighting_json :: "SplineWeightingData option"

subsection \<open>Time stamps and 64-bit arithmetic\<close>

text \<open>
  The conversion of a \<open>double\<close> to \<open>int64_t\<close> drops the fraction. Two things the
  program does are not in this definition. For a value outside the range of
  \<open>int64_t\<close> the conversion is undefined in C++; here it is the truncated integer for
  every real (the time stamps of a recording, in nanoseconds, are far inside the range).
  And the program converts the product that the multiplication by \<open>1e9\<close> has rounded
  to a \<open>double\<close>; here the product is exact. The results over all inputs are stated
  on the converted integers, or use the same conversion on both sides, and hold
  whatever the conversion returns.
\<close>

definition to_int64 :: "real \<Rightarrow> int" where
  "to_int64 x = (if 0 \<le> x then \<lfloor>x\<rfloor> else \<lceil>x\<rceil>)"

definition in_int64 :: "int \<Rightarrow> bool" where
  "in_int64 i \<longleftrightarrow> - (2 ^ 63) \<le> i \<and> i < 2 ^ 63"

text \<open>The division of C++ on \<open>int64_t\<close>: the quotient is rounded towards zero.\<close>

definition int64_div :: "int \<Rightarrow> int \<Rightarrow> failure + int" where
  "int64_div a b =
     (if b = 0 then Inl DivisionByZero
      else if a = - (2 ^ 63) \<and> b = - 1 then Inl SignedOverflow
      else Inr (sgn a * sgn b * (\<bar>a\<bar> div \<bar>b\<bar>)))"

text \<open>The narrowing of an \<open>int64_t\<close> to \<open>int\<close>: the low 32 bits, read as signed.\<close>

definition to_int32 :: "int \<Rightarrow> int" where
  "to_int32 i = (i + 2 ^ 31) mod 2 ^ 32 - 2 ^ 31"

text \<open>
  \<open>const int num_knots = (end_t_ns - start_t_ns) / dt_ns + N\<close>, for either spline.
\<close>

definition num_knots :: "int \<Rightarrow> int \<Rightarrow> int \<Rightarrow> int \<Rightarrow> failure + int" where
  "num_knots start_t_ns end_t_ns dt_ns N =
     (if \<not> in_int64 (end_t_ns - start_t_ns) then Inl SignedOverflow
      else case int64_div (end_t_ns - start_t_ns) dt_ns of
        Inl e \<Rightarrow> Inl e
      | Inr q \<Rightarrow> if \<not> in_int64 (q + N) then Inl SignedOverflow else Inr (to_int32 (q + N)))"

text \<open>
  The count the specification gives: the quotient of the window by the knot spacing,
  rounded up, plus the order.
\<close>

definition spec_num_knots :: "real \<Rightarrow> real \<Rightarrow> real \<Rightarrow> int \<Rightarrow> int" where
  "spec_num_knots t0 tend dt N = \<lceil>(tend - t0) / dt\<rceil> + N"

subsection \<open>The first and the last time stamp\<close>

text \<open>
  \<open>std::minmax_element\<close> over the time stamps of all views. On an empty vector both
  iterators are the end iterator, and \<open>timestamps[0]\<close> reads out of bounds.
\<close>

definition minmax_timestamps :: "real list \<Rightarrow> failure + (real \<times> real)" where
  "minmax_timestamps timestamps =
     (case timestamps of
        [] \<Rightarrow> Inl OutOfBounds
      | x # xs \<Rightarrow> Inr (fold min xs x, fold max xs x))"

subsection \<open>The poses and corners that are kept\<close>

type_synonym TimeCamId = "int \<times> nat"

record CalibCornerData =
  corners :: "vec2 list"
  track_ids :: "track_id list"

text \<open>
  The two \<open>std::unordered_map\<close>s from \<open>TimeCamId\<close> are association lists with one
  entry per key; \<open>m[k] = v\<close> is \<open>alist_update\<close> below and \<open>find\<close> is \<open>map_of\<close>.
  \<open>CalibInitPoseData\<close> has the single field \<open>T_a_c\<close>, so a pose entry is that
  transform.
\<close>

fun alist_update :: "'k \<Rightarrow> 'v \<Rightarrow> ('k \<times> 'v) list \<Rightarrow> ('k \<times> 'v) list" where
  "alist_update k v [] = [(k, v)]"
| "alist_update k v (p # ps) = (if fst p = k then (k, v) # ps else p # alist_update k v ps)"

record pose_corner_maps =
  calib_corners :: "(TimeCamId \<times> CalibCornerData) list"
  calib_init_poses :: "(TimeCamId \<times> SE3) list"

fun collect_views :: "real \<Rightarrow> real \<Rightarrow> calib_view list \<Rightarrow> pose_corner_maps \<Rightarrow> pose_corner_maps" where
  "collect_views t0 tend [] m = m"
| "collect_views t0 tend (view # rest) m =
     (if Name view \<ge> tend \<or> Name view < t0 then collect_views t0 tend rest m
      else
        let t_c_id = (to_int64 (Name view * 1000000000), 0);
            corner_data = \<lparr>corners = map snd (TrackFeatures view),
                           track_ids = map fst (TrackFeatures view)\<rparr>
        in collect_views t0 tend rest
             \<lparr>calib_corners = alist_update t_c_id corner_data (calib_corners m),
              calib_init_poses = alist_update t_c_id (CameraPose view) (calib_init_poses m)\<rparr>)"

subsection \<open>The initial gravity\<close>

text \<open>
  The inner loop of the gravity initialisation, entered with \<open>g_initialized\<close> false:
  it stops at the first sample whose time stamp is less than 3000000 ns from the time
  stamp of the pose, and gives the rotated sample; \<open>None\<close> when it runs to the end
  and assigns nothing. Here the time stamp of the sample is multiplied by \<open>1e9\<close>.
\<close>

fun scan_accelerometer :: "vec3 \<Rightarrow> SE3 \<Rightarrow> int \<Rightarrow> imu_stream \<Rightarrow> vec3 option" where
  "scan_accelerometer accl_bias T_a_i timestamp_ns [] = None"
| "scan_accelerometer accl_bias T_a_i timestamp_ns ((t, acc) # rest) =
     (let ad = vadd acc accl_bias;
          accl_t_ns = to_int64 (t * 1000000000)
      in if \<bar>accl_t_ns - timestamp_ns\<bar> < 3000000 then Some (qrotate (so3 T_a_i) ad)
         else scan_accelerometer accl_bias T_a_i timestamp_ns rest)"

text \<open>
  The two variables of the initialisation. \<open>g_a_init\<close> is declared without a value:
  \<open>None\<close> is the vector nothing has been assigned to.
\<close>

record gravity_seed =
  g_initialized :: bool
  g_a_init :: "vec3 option"

fun initialize_gravity ::
  "vec3 \<Rightarrow> SE3 \<Rightarrow> (TimeCamId \<times> SE3) list \<Rightarrow> imu_stream \<Rightarrow> real list \<Rightarrow>
   gravity_seed \<Rightarrow> gravity_seed" where
  "initialize_gravity accl_bias T_i_c_init poses acc [] s = s"
| "initialize_gravity accl_bias T_i_c_init poses acc (timestamp # rest) s =
     (let timestamp_ns = to_int64 (timestamp * 1000000000) in
      case map_of poses (timestamp_ns, 0) of
        None \<Rightarrow> initialize_gravity accl_bias T_i_c_init poses acc rest s
      | Some T_a_c \<Rightarrow>
          let T_a_i = se3_mul T_a_c (se3_inverse T_i_c_init) in
          if \<not> g_initialized s then
            (case scan_accelerometer accl_bias T_a_i timestamp_ns acc of
               None \<Rightarrow> initialize_gravity accl_bias T_i_c_init poses acc rest s
             | Some g \<Rightarrow>
                 initialize_gravity accl_bias T_i_c_init poses acc rest
                   \<lparr>g_initialized = True, g_a_init = Some g\<rparr>)
          else initialize_gravity accl_bias T_i_c_init poses acc rest s)"

subsection \<open>The measurements that are added\<close>

text \<open>
  The loop over the corner data: a frame is added when its time stamp is in the window.
  The result lists the frames added, in the order of the association list.
\<close>

definition add_corner_frames ::
  "int \<Rightarrow> int \<Rightarrow> (TimeCamId \<times> CalibCornerData) list \<Rightarrow> (TimeCamId \<times> CalibCornerData) list" where
  "add_corner_frames start_t_ns end_t_ns cs =
     filter (\<lambda>kv. fst (fst kv) \<ge> start_t_ns \<and> fst (fst kv) < end_t_ns) cs"

text \<open>
  The loops over the accelerometer and the gyroscope samples are the same loop: the
  sample with index \<open>i\<close> is looked at when \<open>i % sub_sample_imu == 0\<close>; its time is
  \<open>(timestamp_ms / 1000.0 + time_offset_imu_to_cam) * 1e9\<close>; outside the window it is
  skipped, inside it the sample plus the bias is added with that time.
\<close>

definition corrected_time_ns :: "real \<Rightarrow> real \<Rightarrow> real" where
  "corrected_time_ns time_offset_imu_to_cam t = (t / 1000 + time_offset_imu_to_cam) * 1000000000"

fun add_imu_measurements ::
  "nat \<Rightarrow> vec3 \<Rightarrow> real \<Rightarrow> int \<Rightarrow> int \<Rightarrow> nat \<Rightarrow> imu_stream \<Rightarrow> (vec3 \<times> real) list" where
  "add_imu_measurements sub_sample_imu bias time_offset start_t_ns end_t_ns i [] = []"
| "add_imu_measurements sub_sample_imu bias time_offset start_t_ns end_t_ns i ((tms, m) # rest) =
     (if i mod sub_sample_imu = 0 then
        (let t = corrected_time_ns time_offset tms in
         if t < real_of_int start_t_ns \<or> t \<ge> real_of_int end_t_ns
         then add_imu_measurements sub_sample_imu bias time_offset start_t_ns end_t_ns (Suc i) rest
         else (vadd m bias, t) #
              add_imu_measurements sub_sample_imu bias time_offset start_t_ns end_t_ns (Suc i) rest)
      else add_imu_measurements sub_sample_imu bias time_offset start_t_ns end_t_ns (Suc i) rest)"

subsection \<open>main, up to the call of the optimiser\<close>

text \<open>
  What \<open>main\<close> has handed to the spline object \<open>calib_spline\<close> when it calls
  \<open>optimize\<close>: the gravity given to \<open>setG\<close> (\<open>None\<close> when the vector passed was
  never assigned), the initial pose and the knot counts given to \<open>init\<close>, and the
  measurements added.
\<close>

record seeded_state =
  gravity :: "vec3 option"
  gravity_was_initialized :: bool
  T_w_i_init :: SE3
  num_knots_so3 :: int
  num_knots_r3 :: int
  corner_frames :: "(TimeCamId \<times> CalibCornerData) list"
  accel_measurements :: "(vec3 \<times> real) list"
  gyro_measurements :: "(vec3 \<times> real) list"

text \<open>
  The body of \<open>main\<close> after its five reads. The update rate reads the first two
  accelerometer time stamps. The key of the first pose, \<open>tcid_init\<close>, is built from the
  time stamp in seconds, with no factor \<open>1e9\<close>, and \<open>at\<close> throws when the map has no
  such key.
\<close>

definition calibrate ::
  "vec3 \<Rightarrow> vec3 \<Rightarrow> calib_view list \<Rightarrow> CameraTelemetryData \<Rightarrow> quaternion \<Rightarrow> real \<Rightarrow>
   SplineWeightingData \<Rightarrow> failure + seeded_state" where
  "calibrate gyro_bias accl_bias calib_dataset telemetry_data imu2cam time_offset_imu_to_cam
     weight_data =
     (let T_i_c_init = \<lparr>so3 = qconjugate imu2cam, translation = (0, 0, 0)\<rparr> in
      if length (accelerometer telemetry_data) < 2 then Inl OutOfBounds
      else
        let timestamps = map Name calib_dataset in
        case minmax_timestamps timestamps of
          Inl e \<Rightarrow> Inl e
        | Inr (t0, tend) \<Rightarrow>
            let start_t_ns = to_int64 (t0 * 1000000000);
                end_t_ns = to_int64 (tend * 1000000000);
                dt_so3_ns = to_int64 (dt_so3 weight_data * 1000000000);
                dt_r3_ns = to_int64 (dt_r3 weight_data * 1000000000);
                m = collect_views t0 tend calib_dataset
                      \<lparr>calib_corners = [], calib_init_poses = []\<rparr>;
                seed = initialize_gravity accl_bias T_i_c_init (calib_init_poses m)
                         (accelerometer telemetry_data) timestamps
                         \<lparr>g_initialized = False, g_a_init = None\<rparr>
            in
            case map_of (calib_init_poses m) (to_int64 t0, 0) of
              None \<Rightarrow> Inl OutOfRangeException
            | Some T_a_c \<Rightarrow>
                (case num_knots start_t_ns end_t_ns dt_so3_ns 5 of
                   Inl e \<Rightarrow> Inl e
                 | Inr n_so3 \<Rightarrow>
                     (case num_knots start_t_ns end_t_ns dt_r3_ns 5 of
                        Inl e \<Rightarrow> Inl e
                      | Inr n_r3 \<Rightarrow>
                          Inr \<lparr>gravity = g_a_init seed,
                               gravity_was_initialized = g_initialized seed,
                               T_w_i_init = se3_mul T_a_c (se3_inverse T_i_c_init),
                               num_knots_so3 = n_so3,
                               num_knots_r3 = n_r3,
                               corner_frames =
                                 add_corner_frames start_t_ns end_t_ns (calib_corners m),
                               accel_measurements =
                                 add_imu_measurements 1 accl_bias time_offset_imu_to_cam
                                   start_t_ns end_t_ns 0 (accelerometer telemetry_data),
                               gyro_measurements =
                                 add_imu_measurements 1 gyro_bias time_offset_imu_to_cam
                                   start_t_ns end_t_ns 0 (gyroscope telemetry_data)\<rparr>)))"

text \<open>
  \<open>main\<close>: the five reads, each under a \<open>CHECK\<close>, which ends the program with the
  message when the read fails; then the body above.
\<close>

definition main_continuous_time :: "main_inputs \<Rightarrow> failure + seeded_state" where
  "main_continuous_time inp =
     (case imu_bias_file inp of
        None \<Rightarrow> Inl (CheckFailed ''Could not open imu_bias_file'')
      | Some (gyro_bias, accl_bias) \<Rightarrow>
     (case input_calibration_dataset inp of
        None \<Rightarrow> Inl (CheckFailed ''Could not read Reconstruction file.'')
      | Some calib_dataset \<Rightarrow>
     (case gopro_telemetry_json inp of
        None \<Rightarrow> Inl (CheckFailed ''Could not read: gopro_telemetry_json'')
      | Some telemetry_data \<Rightarrow>
     (case gyro_to_cam_initial_calibration inp of
        None \<Rightarrow> Inl (CheckFailed ''Could not read: gyro_to_cam_initial_calibration'')
      | Some (imu2cam, time_offset_imu_to_cam) \<Rightarrow>
     if \<not> spline_error_weighting_json_given inp
     then Inl (CheckFailed ''You need to provide spline error weighting factors.'')
     else
     (case spline_error_weighting_json inp of
        None \<Rightarrow> Inl (CheckFailed ''Could not open spline_error_weighting_json'')
      | Some weight_data \<Rightarrow>
          calibrate gyro_bias accl_bias calib_dataset telemetry_data imu2cam
            time_offset_imu_to_cam weight_data)))))"

section \<open>The knot store of a uniform spline\<close>

text \<open>
  Modelled from the spec: the spline classes with \<open>ExtendTo\<close> (the headers under
  \<open>OpenCameraCalibrator/spline/trajectories\<close>) are not among the source files. The
  specification describes the knot store as an append-only sequence of control points
  with a fixed spacing, on which \<open>ExtendTo(time, defaultValue)\<close> appends knots until
  the domain covers \<open>time\<close>, and counts the knots that cover a window from the start
  time as the quotient of the window by the spacing, rounded up, plus the order.
\<close>

record 'k knot_store =
  start_time :: real
  knot_spacing :: real
  spline_order :: nat
  knots :: "'k list"

text \<open>
  Modelled from the spec: the domain covers a time when the store holds at least the
  number of knots the specification counts for the window up to that time. A spacing
  that is not positive gives no domain.
\<close>

definition domain_covers :: "'k knot_store \<Rightarrow> real \<Rightarrow> bool" where
  "domain_covers s time \<longleftrightarrow>
     0 < knot_spacing s \<and>
     \<lceil>(time - start_time s) / knot_spacing s\<rceil> + int (spline_order s) \<le> int (length (knots s))"

text \<open>
  Modelled from the spec: \<open>ExtendTo\<close> is the loop that appends the default value
  while the domain does not cover the time. The loop need not end: the result is
  \<open>None\<close> when it does not.
\<close>

partial_function (option) ExtendTo :: "real \<Rightarrow> 'k \<Rightarrow> 'k knot_store \<Rightarrow> 'k knot_store option" where
  "ExtendTo time defaultValue s =
     (if domain_covers s time then Some s
      else ExtendTo time defaultValue (s\<lparr>knots := knots s @ [defaultValue]\<rparr>))"

text \<open>The number of knots the loop has to append.\<close>

definition knots_missing :: "'k knot_store \<Rightarrow> real \<Rightarrow> nat" where
  "knots_missing s time =
     nat (\<lceil>(time - start_time s) / knot_spacing s\<rceil> + int (spline_order s) - int (length (knots s)))"

section \<open>create\_imu\_camera\_charuco.cc\<close>

subsection \<open>The dataset and the objects of the estimator\<close>

text \<open>
  The reconstruction \<open>recon_calib_dataset\<close> as the detection loop leaves it: the views
  in the order of \<open>ViewIds()\<close>, each with the time stamp parsed from its name, and the
  tracks in the order of \<open>TrackIds()\<close>, each with its point and, for every view that
  observes it, the feature of that view.
\<close>

record board_track =
  track_point :: vec4
  observed_in :: "(view_id \<times> vec2) list"

record detected_dataset =
  dataset_views :: "(view_id \<times> real) list"
  dataset_tracks :: "board_track list"

text \<open>
  Modelled from the spec: the landmark, view and observation classes of the estimator
  (\<open>OpenCameraCalibrator/spline/sfm/sfm.h\<close>) are not among the source files. An
  observation is a pixel position bound to a landmark, here the index of the landmark
  in \<open>kontiki_landmarks\<close>; views and landmarks list their observations; a landmark has
  a position, a lock and a reference observation.
\<close>

record observation =
  of_landmark :: nat
  pixel :: vec2

record landmark =
  point :: vec4
  locked :: bool
  observations :: "observation list"
  reference :: "observation option"

record kontiki_view =
  timestamp :: real
  view_observations :: "observation list"

subsection \<open>The views that are kept\<close>

text \<open>
  The loop over the views (lines 226 to 234). The two bounds
  \<open>tend - max(dt_so3, dt_r3)\<close> and \<open>t0 + max(dt_so3, dt_r3)\<close> are exact sums here,
  where the program compares with the sums rounded to a \<open>double\<close>: a time stamp that
  meets a bound up to that rounding can be kept here and dropped by the program.
\<close>

fun select_views ::
  "real \<Rightarrow> real \<Rightarrow> real \<Rightarrow> real \<Rightarrow> (view_id \<times> real) list \<Rightarrow>
   (view_id \<times> kontiki_view) list \<Rightarrow> (view_id \<times> kontiki_view) list" where
  "select_views t0 tend knot_dt_so3 knot_dt_r3 [] kontiki_views = kontiki_views"
| "select_views t0 tend knot_dt_so3 knot_dt_r3 ((view_id, ts) # rest) kontiki_views =
     (if ts \<ge> tend - max knot_dt_so3 knot_dt_r3 \<or> ts < t0 + max knot_dt_so3 knot_dt_r3
      then select_views t0 tend knot_dt_so3 knot_dt_r3 rest kontiki_views
      else select_views t0 tend knot_dt_so3 knot_dt_r3 rest
             (alist_update view_id \<lparr>timestamp = ts, view_observations = []\<rparr> kontiki_views))"

subsection \<open>The landmarks\<close>

text \<open>
  The inner loop over the views that observe a track: for a view that was kept,
  \<open>CreateObservation\<close> binds the feature to the landmark, in the view and in the
  landmark.
\<close>

fun create_observations ::
  "nat \<Rightarrow> (view_id \<times> vec2) list \<Rightarrow> (view_id \<times> kontiki_view) list \<times> landmark \<Rightarrow>
   (view_id \<times> kontiki_view) list \<times> landmark" where
  "create_observations idx [] st = st"
| "create_observations idx ((view_id, feature) # rest) (kontiki_views, l) =
     (case map_of kontiki_views view_id of
        None \<Rightarrow> create_observations idx rest (kontiki_views, l)
      | Some kv \<Rightarrow>
          let ob = \<lparr>of_landmark = idx, pixel = feature\<rparr> in
          create_observations idx rest
            (alist_update view_id (kv\<lparr>view_observations := view_observations kv @ [ob]\<rparr>)
               kontiki_views,
             l\<lparr>observations := observations l @ [ob]\<rparr>))"

text \<open>
  The loop over the tracks. A track seen in at least two kept views becomes a landmark:
  \<open>set_point(track->Point())\<close>, then \<open>Lock(true)\<close>, then its observations.
\<close>

fun build_landmarks ::
  "board_track list \<Rightarrow> (view_id \<times> kontiki_view) list \<times> landmark list \<Rightarrow>
   (view_id \<times> kontiki_view) list \<times> landmark list" where
  "build_landmarks [] st = st"
| "build_landmarks (track # rest) (kontiki_views, kontiki_landmarks) =
     (let nr_views = length (filter (\<lambda>vf. map_of kontiki_views (fst vf) \<noteq> None) (observed_in track))
      in if nr_views \<ge> 2 then
           (case create_observations (length kontiki_landmarks) (observed_in track)
                   (kontiki_views,
                    \<lparr>point = track_point track, locked = True, observations = [],
                     reference = None\<rparr>) of
              (kontiki_views', l) \<Rightarrow>
                build_landmarks rest (kontiki_views', kontiki_landmarks @ [l]))
         else build_landmarks rest (kontiki_views, kontiki_landmarks))"

text \<open>\<open>l->set_reference(l->observations()[0])\<close> for every landmark.\<close>

fun set_references :: "landmark list \<Rightarrow> failure + landmark list" where
  "set_references [] = Inr []"
| "set_references (l # ls) =
     (case observations l of
        [] \<Rightarrow> Inl OutOfBounds
      | ob # _ \<Rightarrow>
          (case set_references ls of
             Inl e \<Rightarrow> Inl e
           | Inr ls' \<Rightarrow> Inr (l\<lparr>reference := Some ob\<rparr> # ls')))"

subsection \<open>main, up to the call of the solver\<close>

type_synonym mat3 = "vec3 \<times> vec3 \<times> vec3"

record pinhole_camera =
  calibration_matrix :: mat3
  relative_orientation_locked :: bool
  relative_position_locked :: bool

text \<open>
  What the estimator holds when \<open>Solve\<close> is called, and what the program has printed
  about its reads.
\<close>

record estimator_state =
  console :: "string list"
  r3_traj_spline :: "vec3 knot_store"
  so3_traj_spline :: "quaternion knot_store"
  kontiki_views_of :: "(view_id \<times> kontiki_view) list"
  kontiki_landmarks_of :: "landmark list"
  cam_kontiki :: pinhole_camera
  measurements :: "observation list"

text \<open>
  The inputs: the reconstruction read from \<open>input_calibration_dataset\<close> (\<open>None\<close> when
  the read fails), of which only the calibration matrix of view 0 is used (\<open>None\<close>
  when there is no view 0); the telemetry; whether the detector parameters could be
  read; and the dataset the detection loop builds from the video.
\<close>

record charuco_inputs =
  cam_calib_recon :: "mat3 option option"
  telemetry_json :: "CameraTelemetryData option"
  detector_params_read :: bool
  recon_calib_dataset :: detected_dataset

definition option_to_sum :: "'a option \<Rightarrow> failure + 'a" where
  "option_to_sum r = (case r of None \<Rightarrow> Inl Diverges | Some v \<Rightarrow> Inr v)"

text \<open>
  The body of \<open>main\<close> from the time stamps on. The order of the splines is a
  parameter: the classes that fix it are not among the source files. The two knot
  spacings \<open>dt_so3\<close> and \<open>dt_r3\<close> of the source are \<open>knot_dt_so3\<close> and
  \<open>knot_dt_r3\<close> here.
\<close>

definition charuco_calibrate ::
  "nat \<Rightarrow> string list \<Rightarrow> mat3 option \<Rightarrow> detected_dataset \<Rightarrow> failure + estimator_state" where
  "charuco_calibrate order out view_0 dataset =
     (let knot_dt_r3 = 1 / 10; knot_dt_so3 = 1 / 10 in
      case minmax_timestamps (map snd (dataset_views dataset)) of
        Inl e \<Rightarrow> Inl e
      | Inr (t0, tend) \<Rightarrow>
          (case build_landmarks (dataset_tracks dataset)
                  (select_views t0 tend knot_dt_so3 knot_dt_r3 (dataset_views dataset) [], []) of
             (views, lms) \<Rightarrow>
               (case set_references lms of
                  Inl e \<Rightarrow> Inl e
                | Inr lms' \<Rightarrow>
                    (case view_0 of
                       None \<Rightarrow> Inl NullPointer
                     | Some K \<Rightarrow>
                         (case option_to_sum (ExtendTo tend (0, 0, 0)
                                  \<lparr>start_time = 0, knot_spacing = knot_dt_r3, spline_order = order,
                                   knots = []\<rparr>) of
                            Inl e \<Rightarrow> Inl e
                          | Inr r3_spline \<Rightarrow>
                         (case option_to_sum (ExtendTo tend \<lparr>qw = 1, qx = 0, qy = 0, qz = 0\<rparr>
                                  \<lparr>start_time = 0, knot_spacing = knot_dt_so3, spline_order = order,
                                   knots = []\<rparr>) of
                            Inl e \<Rightarrow> Inl e
                          | Inr so3_spline \<Rightarrow>
                         (case option_to_sum (ExtendTo (max t0 (tend + 1 / 10)) (0, 0, 0) r3_spline) of
                            Inl e \<Rightarrow> Inl e
                          | Inr r3_spline' \<Rightarrow>
                         (case option_to_sum (ExtendTo (max t0 (tend + 1 / 10))
                                  \<lparr>qw = 1, qx = 0, qy = 0, qz = 0\<rparr> so3_spline) of
                            Inl e \<Rightarrow> Inl e
                          | Inr so3_spline' \<Rightarrow>
                              Inr \<lparr>console = out,
                                   r3_traj_spline = r3_spline',
                                   so3_traj_spline = so3_spline',
                                   kontiki_views_of = views,
                                   kontiki_landmarks_of = lms',
                                   cam_kontiki =
                                     \<lparr>calibration_matrix = K,
                                      relative_orientation_locked = True,
                                      relative_position_locked = True\<rparr>,
                                   measurements =
                                     concat (map (\<lambda>kv. view_observations (snd kv)) views)\<rparr>))))))))"

text \<open>
  \<open>main\<close>: the reconstruction is read under a \<open>CHECK\<close>; a telemetry file that cannot
  be read is reported on the console and nothing else; detector parameters that cannot
  be read end the program with \<open>return 0\<close>.
\<close>

definition main_charuco :: "nat \<Rightarrow> charuco_inputs \<Rightarrow> failure + estimator_state" where
  "main_charuco order inp =
     (case cam_calib_recon inp of
        None \<Rightarrow> Inl (CheckFailed ''Could not read Reconstruction file.'')
      | Some view_0 \<Rightarrow>
          let out = (if telemetry_json inp = None then [''Could not read: gopro_telemetry_json'']
                     else [])
          in if \<not> detector_params_read inp
             then Inl (EarlyReturn ''Invalid detector parameters file'')
             else charuco_calibrate order out view_0 (recon_calib_dataset inp))"

section \<open>Notions used to state the results\<close>

text \<open>The key under which the view loop files a view: its time stamp in nanoseconds, camera 0.\<close>

definition frame_key :: "calib_view \<Rightarrow> TimeCamId" where
  "frame_key v = (to_int64 (Name v * 1000000000), 0)"

text \<open>A sample whose corrected time is in the window \<open>start_t_ns \<le> t < end_t_ns\<close>.\<close>

definition in_window :: "real \<Rightarrow> int \<Rightarrow> int \<Rightarrow> real \<times> vec3 \<Rightarrow> bool" where
  "in_window time_offset start_t_ns end_t_ns s \<longleftrightarrow>
     real_of_int start_t_ns \<le> corrected_time_ns time_offset (fst s) \<and>
     corrected_time_ns time_offset (fst s) < real_of_int end_t_ns"

text \<open>The test of the gravity loop on a sample, for the time stamp of a pose.\<close>

definition sample_matches :: "int \<Rightarrow> real \<times> vec3 \<Rightarrow> bool" where
  "sample_matches timestamp_ns s \<longleftrightarrow> \<bar>to_int64 (fst s * 1000000000) - timestamp_ns\<bar> < 3000000"

text \<open>Rotations and views for the concrete runs below.\<close>

definition identity_quaternion :: quaternion where
  "identity_quaternion = \<lparr>qw = 1, qx = 0, qy = 0, qz = 0\<rparr>"

definition half_turn_z :: quaternion where
  "half_turn_z = \<lparr>qw = 0, qx = 0, qy = 0, qz = 1\<rparr>"

definition SE3_identity :: SE3 where
  "SE3_identity = \<lparr>so3 = identity_quaternion, translation = (0, 0, 0)\<rparr>"

definition view_at :: "real \<Rightarrow> calib_view" where
  "view_at t = \<lparr>Name = t, TrackFeatures = [], CameraPose = SE3_identity\<rparr>"

text \<open>A track seen in at least two of the views that are kept.\<close>

definition seen_in_kept :: "(view_id \<times> kontiki_view) list \<Rightarrow> board_track \<Rightarrow> bool" where
  "seen_in_kept kontiki_views track \<longleftrightarrow>
     2 \<le> length (filter (\<lambda>vf. map_of kontiki_views (fst vf) \<noteq> None) (observed_in track))"

text \<open>
  A small dataset for the concrete runs: four views at 0 s, 0.5 s, 0.75 s and 1 s, one
  track seen in the first three and one seen in the second and the last.
\<close>

definition board_run :: detected_dataset where
  "board_run =
     \<lparr>dataset_views = [(10, 0), (11, 1 / 2), (12, 3 / 4), (13, 1)],
      dataset_tracks =
        [\<lparr>track_point = (0, 0, 0, 1), observed_in = [(10, (5, 5)), (11, (6, 6)), (12, (7, 7))]\<rparr>,
         \<lparr>track_point = (2, 0, 0, 1), observed_in = [(11, (8, 8)), (13, (9, 9))]\<rparr>]\<rparr>"

definition identity_matrix :: mat3 where
  "identity_matrix = ((1, 0, 0), (0, 1, 0), (0, 0, 1))"

section \<open>Theorems\<close>

subsection \<open>CameraIDToString\<close>

text \<open>
  Claim C9. \<open>CameraIDToString\<close> returns \<open>DOUBLE_SPHERE\<close> exactly for the
  \<open>DOUBLE_SPHERE\<close> value of the enumeration. Whenever the \<open>DIVISION_UNDISTORTION\<close>
  value is not zero, it returns \<open>DIVISION_UNDISTORTION\<close> for every other argument, so
  it does not return \<open>PINHOLE\<close> for the \<open>PINHOLE\<close> value, nor for any other.
\<close>

theorem CameraIDToString_ignores_argument:
  "(CameraIDToString E x = Some ''DOUBLE_SPHERE'' \<longleftrightarrow> x = DOUBLE_SPHERE E) \<and>
   (DIVISION_UNDISTORTION E \<noteq> 0 \<longrightarrow> x \<noteq> DOUBLE_SPHERE E \<longrightarrow>
      CameraIDToString E x = Some ''DIVISION_UNDISTORTION'') \<and>
   (DIVISION_UNDISTORTION E \<noteq> 0 \<longrightarrow>
      CameraIDToString E (PINHOLE E) \<noteq> Some ''PINHOLE'' \<and>
      CameraIDToString E x \<noteq> Some ''PINHOLE'')"
  by (simp add: CameraIDToString_def)

text \<open>
  The theorem at the values 5, 4 and 0 for \<open>DOUBLE_SPHERE\<close>, \<open>DIVISION_UNDISTORTION\<close>
  and \<open>PINHOLE\<close>: the pinhole value is reported as a division-undistortion camera.
\<close>

theorem CameraIDToString_ignores_argument_witness:
  "CameraIDToString \<lparr>DOUBLE_SPHERE = 5, DIVISION_UNDISTORTION = 4, PINHOLE = 0\<rparr> 0
     = Some ''DIVISION_UNDISTORTION'' \<and>
   CameraIDToString \<lparr>DOUBLE_SPHERE = 5, DIVISION_UNDISTORTION = 4, PINHOLE = 0\<rparr> 5
     = Some ''DOUBLE_SPHERE''"
  using CameraIDToString_ignores_argument
    [of "\<lparr>DOUBLE_SPHERE = 5, DIVISION_UNDISTORTION = 4, PINHOLE = 0\<rparr>" 0]
    CameraIDToString_ignores_argument
    [of "\<lparr>DOUBLE_SPHERE = 5, DIVISION_UNDISTORTION = 4, PINHOLE = 0\<rparr>" 5]
  by simp

subsection \<open>GetReprojErrorOfView\<close>

lemma accumulate_reproj_error_sum:
  "\<forall>(tid, feat) \<in> set fs. trk tid \<noteq> None \<Longrightarrow>
   accumulate_reproj_error P cam trk fs acc =
     Inr (acc + (\<Sum>(tid, feat) \<leftarrow> fs. pixel_distance (P cam (the (trk tid))) feat))"
proof (induction fs arbitrary: acc)
  case Nil
  then show ?case by simp
next
  case (Cons a fs)
  obtain tid feat where a: "a = (tid, feat)" by (cases a)
  from Cons.prems a obtain point where pt: "trk tid = Some point" by auto
  from Cons.prems have rest: "\<forall>(tid, feat) \<in> set fs. trk tid \<noteq> None" by simp
  show ?case
    using Cons.IH [OF rest] a pt by (simp add: add.assoc)
qed

text \<open>
  Claim C10. \<open>GetReprojErrorOfView\<close> divides the accumulated error by the number of
  tracks with no test for an empty view. For a view of the reconstruction with at least
  one track, all of them tracks of the reconstruction, it returns the mean distance in
  pixels between the projected points and the features; for a view with no track it
  returns the not-a-number of \<open>0.0 / 0\<close>, and no failure.
\<close>

theorem GetReprojErrorOfView_mean_or_nan:
  assumes "View recon v_id = Some v"
    and "\<forall>(tid, feat) \<in> set (Features v). Track recon tid \<noteq> None"
  shows "GetReprojErrorOfView P recon v_id =
     (if Features v = [] then Inr NaN
      else Inr (Finite (mean_reproj_norm P (Camera v) (Track recon) (Features v))))"
  using assms accumulate_reproj_error_sum [OF assms(2), of P "Camera v" 0]
  by (simp add: GetReprojErrorOfView_def mean_reproj_norm_def)

lemma sqrt_25: "sqrt 25 = 5"
  using real_sqrt_abs [of 5] by simp

text \<open>
  The theorem at a view with two tracks, whose projections are 5 and 0 pixels from
  their features, and at a view with no track.
\<close>

theorem GetReprojErrorOfView_mean_or_nan_witness:
  "GetReprojErrorOfView (\<lambda>cam (x, y, z, w). (x / z, y / z))
     \<lparr>View = [0 \<mapsto> \<lparr>Camera = (), Features = [(0, (0, 0)), (1, (1, 1))]\<rparr>,
              1 \<mapsto> \<lparr>Camera = (), Features = []\<rparr>],
      Track = [0 \<mapsto> (3, 4, 1, 1), 1 \<mapsto> (1, 1, 1, 1)]\<rparr> 0 = Inr (Finite (5 / 2)) \<and>
   GetReprojErrorOfView (\<lambda>cam (x, y, z, w). (x / z, y / z))
     \<lparr>View = [0 \<mapsto> \<lparr>Camera = (), Features = [(0, (0, 0)), (1, (1, 1))]\<rparr>,
              1 \<mapsto> \<lparr>Camera = (), Features = []\<rparr>],
      Track = [0 \<mapsto> (3, 4, 1, 1), 1 \<mapsto> (1, 1, 1, 1)]\<rparr> 1 = Inr NaN"
  using GetReprojErrorOfView_mean_or_nan
    [of "\<lparr>View = [0 \<mapsto> \<lparr>Camera = (), Features = [(0, (0, 0)), (1, (1, 1))]\<rparr>,
              1 \<mapsto> \<lparr>Camera = (), Features = []\<rparr>],
      Track = [0 \<mapsto> (3, 4, 1, 1), 1 \<mapsto> (1, 1, 1, 1)]\<rparr>" 0
      "\<lparr>Camera = (), Features = [(0, (0, 0)), (1, (1, 1))]\<rparr>"
      "(\<lambda>cam (x, y, z, w). (x / z, y / z))"]
    GetReprojErrorOfView_mean_or_nan
    [of "\<lparr>View = [0 \<mapsto> \<lparr>Camera = (), Features = [(0, (0, 0)), (1, (1, 1))]\<rparr>,
              1 \<mapsto> \<lparr>Camera = (), Features = []\<rparr>],
      Track = [0 \<mapsto> (3, 4, 1, 1), 1 \<mapsto> (1, 1, 1, 1)]\<rparr>" 1
      "\<lparr>Camera = (), Features = []\<rparr>"
      "(\<lambda>cam (x, y, z, w). (x / z, y / z))"]
    sqrt_25
  by (simp add: mean_reproj_norm_def pixel_distance_def)

subsection \<open>The knot counts\<close>

lemma int64_div_pos:
  "0 \<le> a \<Longrightarrow> 0 < b \<Longrightarrow> int64_div a b = Inr (a div b)"
  by (simp add: int64_div_def sgn_if)

lemma to_int32_id: "- (2 ^ 31) \<le> i \<Longrightarrow> i < 2 ^ 31 \<Longrightarrow> to_int32 i = i"
  by (simp add: to_int32_def)

lemma ceiling_quotient:
  "0 < (b::int) \<Longrightarrow> \<lceil>real_of_int a / real_of_int b\<rceil> = (if b dvd a then a div b else a div b + 1)"
  by (simp add: ceiling_divide_eq_div zdiv_zminus1_eq_if dvd_eq_mod_eq_0)

text \<open>
  Claim C1, as the program has it. Let \<open>start_t_ns\<close>, \<open>end_t_ns\<close> and \<open>dt_ns\<close> be
  the 64-bit integers the program computes from the start time, the end time and the
  knot spacing (lines 109 to 112). When the window \<open>end_t_ns - start_t_ns\<close> is not
  negative and fits 64 bits, the spacing \<open>dt_ns\<close> is positive and the count fits an
  \<open>int\<close>, the knot count of a spline is the quotient of the window by the spacing,
  rounded down, plus the order 5. It is the quotient of these integers rounded up, plus
  5, exactly when \<open>dt_ns\<close> divides the window, and one less than that otherwise. For
  a window of 5000000000 ns and a spacing of 100000000 ns (5 s and 0.1 s) it is 55.
\<close>

theorem num_knots_truncates:
  assumes "start_t_ns \<le> end_t_ns" and "in_int64 (end_t_ns - start_t_ns)" and "0 < dt_ns"
    and "(end_t_ns - start_t_ns) div dt_ns + 5 < 2 ^ 31"
  shows "num_knots start_t_ns end_t_ns dt_ns 5 = Inr ((end_t_ns - start_t_ns) div dt_ns + 5) \<and>
     (dt_ns dvd (end_t_ns - start_t_ns) \<longrightarrow>
        num_knots start_t_ns end_t_ns dt_ns 5 =
          Inr (spec_num_knots (real_of_int start_t_ns) (real_of_int end_t_ns) (real_of_int dt_ns) 5)) \<and>
     (\<not> dt_ns dvd (end_t_ns - start_t_ns) \<longrightarrow>
        num_knots start_t_ns end_t_ns dt_ns 5 =
          Inr (spec_num_knots (real_of_int start_t_ns) (real_of_int end_t_ns) (real_of_int dt_ns) 5 - 1)) \<and>
     (end_t_ns - start_t_ns = 5000000000 \<and> dt_ns = 100000000 \<longrightarrow>
        num_knots start_t_ns end_t_ns dt_ns 5 = Inr 55)"
proof -
  let ?d = "end_t_ns - start_t_ns"
  have d0: "0 \<le> ?d" using assms(1) by simp
  have q0: "0 \<le> ?d div dt_ns" using d0 assms(3) by (simp add: pos_imp_zdiv_nonneg_iff)
  have q: "int64_div ?d dt_ns = Inr (?d div dt_ns)"
    using d0 assms(3) by (rule int64_div_pos)
  have r: "in_int64 (?d div dt_ns + 5)"
    using q0 assms(4) by (simp add: in_int64_def)
  have n: "to_int32 (?d div dt_ns + 5) = ?d div dt_ns + 5"
    using q0 assms(4) by (intro to_int32_id) simp_all
  have code: "num_knots start_t_ns end_t_ns dt_ns 5 = Inr (?d div dt_ns + 5)"
    using assms(2) q r n by (simp add: num_knots_def)
  have c: "\<lceil>(real_of_int end_t_ns - real_of_int start_t_ns) / real_of_int dt_ns\<rceil>
            = (if dt_ns dvd ?d then ?d div dt_ns else ?d div dt_ns + 1)"
    using ceiling_quotient [OF assms(3), of ?d] by simp
  have five: "?d = 5000000000 \<and> dt_ns = 100000000 \<longrightarrow>
      num_knots start_t_ns end_t_ns dt_ns 5 = Inr 55"
  proof (intro impI, elim conjE)
    assume "?d = 5000000000" and "dt_ns = 100000000"
    then have "?d div dt_ns + 5 = 55" by simp
    with code show "num_knots start_t_ns end_t_ns dt_ns 5 = Inr 55" by simp
  qed
  have rest: "num_knots start_t_ns end_t_ns dt_ns 5 = Inr (?d div dt_ns + 5) \<and>
     (dt_ns dvd ?d \<longrightarrow>
        num_knots start_t_ns end_t_ns dt_ns 5 =
          Inr (spec_num_knots (real_of_int start_t_ns) (real_of_int end_t_ns) (real_of_int dt_ns) 5)) \<and>
     (\<not> dt_ns dvd ?d \<longrightarrow>
        num_knots start_t_ns end_t_ns dt_ns 5 =
          Inr (spec_num_knots (real_of_int start_t_ns) (real_of_int end_t_ns) (real_of_int dt_ns) 5 - 1))"
    using code c by (simp add: spec_num_knots_def)
  from rest five show ?thesis by blast
qed

text \<open>
  Windows of 5 s from 0 s and from 7 s with a knot every 0.1 s: 55 knots, as the
  specification counts. A window of 5.25 s from 1 s on with a knot every 0.5 s: 15
  knots, one less than the rounded-up quotient plus 5.
\<close>

theorem num_knots_truncates_witness:
  "num_knots (to_int64 (0 * 1000000000)) (to_int64 (5 * 1000000000))
      (to_int64 (1 / 10 * 1000000000)) 5 = Inr 55 \<and>
   spec_num_knots 0 5000000000 100000000 5 = 55 \<and>
   num_knots 7000000000 12000000000 100000000 5 = Inr 55 \<and>
   num_knots (to_int64 (1 * 1000000000)) (to_int64 (25 / 4 * 1000000000))
      (to_int64 (1 / 2 * 1000000000)) 5 = Inr 15 \<and>
   spec_num_knots 1000000000 6250000000 500000000 5 - 1 = 15"
  using num_knots_truncates [of 0 5000000000 100000000]
    num_knots_truncates [of 7000000000 12000000000 100000000]
    num_knots_truncates [of 1000000000 6250000000 500000000]
  by (simp add: to_int64_def in_int64_def spec_num_knots_def)

text \<open>
  A window of 5.25 s with a knot every 0.5 s: the program allocates 15 knots, the
  rounded-up quotient plus the order is 16.
\<close>

theorem num_knots_ceiling_counterexample:
  "num_knots (to_int64 (0 * 1000000000)) (to_int64 (21 / 4 * 1000000000))
      (to_int64 (1 / 2 * 1000000000)) 5 = Inr 15 \<and>
   spec_num_knots 0 (21 / 4) (1 / 2) 5 = 16"
  by (simp add: num_knots_def to_int64_def in_int64_def int64_div_def to_int32_def spec_num_knots_def)

subsection \<open>The time window\<close>

lemma minmax_timestamps_Min_Max:
  assumes "minmax_timestamps ts = Inr (t0, tend)"
  shows "ts \<noteq> [] \<and> t0 = Min (set ts) \<and> tend = Max (set ts)"
proof (cases ts)
  case Nil
  with assms show ?thesis by (simp add: minmax_timestamps_def)
next
  case (Cons x xs)
  with assms have "t0 = fold min xs x" and "tend = fold max xs x"
    by (simp_all add: minmax_timestamps_def)
  then show ?thesis
    using Cons Min.set_eq_fold [of x xs] Max.set_eq_fold [of x xs] by simp
qed

lemma keys_alist_update: "fst ` set (alist_update k v ps) = insert k (fst ` set ps)"
  by (induction ps) auto

lemma collect_views_pose_keys:
  "fst ` set (calib_init_poses (collect_views t0 tend vs m)) =
     fst ` set (calib_init_poses m) \<union> frame_key ` {v \<in> set vs. t0 \<le> Name v \<and> Name v < tend}"
proof (induction vs arbitrary: m)
  case Nil
  then show ?case by simp
next
  case (Cons v vs)
  show ?case
  proof (cases "Name v \<ge> tend \<or> Name v < t0")
    case True
    then show ?thesis using Cons.IH [of m] by auto
  next
    case False
    then show ?thesis
      by (simp add: Cons.IH Let_def keys_alist_update frame_key_def) (auto simp: frame_key_def)
  qed
qed

lemma collect_views_corner_keys:
  "fst ` set (calib_corners (collect_views t0 tend vs m)) =
     fst ` set (calib_corners m) \<union> frame_key ` {v \<in> set vs. t0 \<le> Name v \<and> Name v < tend}"
proof (induction vs arbitrary: m)
  case Nil
  then show ?case by simp
next
  case (Cons v vs)
  show ?case
  proof (cases "Name v \<ge> tend \<or> Name v < t0")
    case True
    then show ?thesis using Cons.IH [of m] by auto
  next
    case False
    then show ?thesis
      by (simp add: Cons.IH Let_def keys_alist_update frame_key_def) (auto simp: frame_key_def)
  qed
qed

lemma add_imu_measurements_filter:
  "add_imu_measurements 1 bias off s e i samples =
     map (\<lambda>x. (vadd (snd x) bias, corrected_time_ns off (fst x)))
       (filter (in_window off s e) samples)"
  by (induction samples arbitrary: i) (auto simp: in_window_def Let_def)

text \<open>
  Claim C3, as the program has it. \<open>t0\<close> is the least and \<open>tend\<close> the greatest
  time stamp of the views. A view is kept, in the pose map and in the corner map, exactly
  when \<open>t0 \<le> t < tend\<close> for its time stamp \<open>t\<close>; an inertial sample is added exactly
  when its corrected time \<open>t\<close> satisfies \<open>start_t_ns \<le> t < end_t_ns\<close>, with the plain
  sample plus the bias as its value. The window is closed at its start and open at its
  end.
\<close>

theorem window_is_half_open:
  assumes "minmax_timestamps (map Name views) = Inr (t0, tend)"
  shows "t0 = Min (Name ` set views) \<and> tend = Max (Name ` set views) \<and>
    fst ` set (calib_init_poses
       (collect_views t0 tend views \<lparr>calib_corners = [], calib_init_poses = []\<rparr>)) =
      frame_key ` {v \<in> set views. t0 \<le> Name v \<and> Name v < tend} \<and>
    fst ` set (calib_corners
       (collect_views t0 tend views \<lparr>calib_corners = [], calib_init_poses = []\<rparr>)) =
      frame_key ` {v \<in> set views. t0 \<le> Name v \<and> Name v < tend} \<and>
    add_imu_measurements 1 bias time_offset (to_int64 (t0 * 1000000000))
        (to_int64 (tend * 1000000000)) 0 samples =
      map (\<lambda>x. (vadd (snd x) bias, corrected_time_ns time_offset (fst x)))
        (filter (in_window time_offset (to_int64 (t0 * 1000000000))
                  (to_int64 (tend * 1000000000))) samples)"
proof -
  have "t0 = Min (Name ` set views)" and "tend = Max (Name ` set views)"
    using minmax_timestamps_Min_Max [OF assms] by simp_all
  then show ?thesis
    unfolding collect_views_pose_keys collect_views_corner_keys add_imu_measurements_filter
    by simp
qed

text \<open>
  Views at 2 s, 1 s and 3 s and samples at 500, 1000, 2500 and 3000 ms: the views at
  1 s and 2 s and the samples at 1000 and 2500 ms are kept.
\<close>

theorem window_is_half_open_witness:
  "minmax_timestamps (map Name [view_at 2, view_at 1, view_at 3]) = Inr (1, 3) \<and>
   fst ` set (calib_init_poses (collect_views 1 3 [view_at 2, view_at 1, view_at 3]
       \<lparr>calib_corners = [], calib_init_poses = []\<rparr>)) = {(2000000000, 0), (1000000000, 0)} \<and>
   add_imu_measurements 1 (0, 0, 0) 0 1000000000 3000000000 0
       [(500, (0, 0, 1)), (1000, (0, 0, 2)), (2500, (0, 0, 3)), (3000, (0, 0, 4))] =
     [((0, 0, 2), 1000000000), ((0, 0, 3), 2500000000)]"
proof -
  have m: "minmax_timestamps (map Name [view_at 2, view_at 1, view_at 3]) = Inr (1, 3)"
    by (simp add: minmax_timestamps_def view_at_def)
  have k: "frame_key ` {v \<in> set [view_at 2, view_at 1, view_at 3]. 1 \<le> Name v \<and> Name v < 3}
      = {(2000000000, 0), (1000000000, 0)}"
  proof -
    have "{v \<in> set [view_at 2, view_at 1, view_at 3]. 1 \<le> Name v \<and> Name v < 3}
        = set (filter (\<lambda>v. 1 \<le> Name v \<and> Name v < 3) [view_at 2, view_at 1, view_at 3])"
      by (simp only: set_filter)
    then show ?thesis
      by (simp add: frame_key_def view_at_def to_int64_def)
  qed
  show ?thesis
    using window_is_half_open [OF m, of "(0, 0, 0)" 0
        "[(500, (0, 0, 1)), (1000, (0, 0, 2)), (2500, (0, 0, 3)), (3000, (0, 0, 4))]"] m k
    by (simp add: to_int64_def in_window_def corrected_time_ns_def vadd_def)
qed

text \<open>
  Views at 1 s, 2 s and 3 s: the view whose time stamp is \<open>tend\<close> has no pose in the
  map, and a sample whose corrected time is exactly \<open>end_t_ns\<close> is not added.
\<close>

theorem closed_window_counterexample:
  "minmax_timestamps (map Name [view_at 1, view_at 2, view_at 3]) = Inr (1, 3) \<and>
   map_of (calib_init_poses (collect_views 1 3 [view_at 1, view_at 2, view_at 3]
       \<lparr>calib_corners = [], calib_init_poses = []\<rparr>)) (to_int64 (3 * 1000000000), 0) = None \<and>
   corrected_time_ns 0 3000 = real_of_int (to_int64 (3 * 1000000000)) \<and>
   add_imu_measurements 1 (0, 0, 0) 0 (to_int64 (1 * 1000000000)) (to_int64 (3 * 1000000000)) 0
       [(3000, (0, 0, 1))] = []"
  by (simp add: minmax_timestamps_def view_at_def to_int64_def corrected_time_ns_def Let_def)

subsection \<open>The initial gravity\<close>

lemma scan_accelerometer_Some:
  "scan_accelerometer b T ts acc = Some g \<Longrightarrow>
   \<exists>s \<in> set acc. sample_matches ts s \<and> g = qrotate (so3 T) (vadd (snd s) b)"
  by (induction acc) (auto simp: Let_def sample_matches_def split: if_splits)

lemma scan_accelerometer_None:
  "\<forall>s \<in> set acc. \<not> sample_matches ts s \<Longrightarrow> scan_accelerometer b T ts acc = None"
  by (induction acc) (auto simp: Let_def sample_matches_def)

lemma initialize_gravity_done:
  "g_initialized s \<Longrightarrow> initialize_gravity b T poses acc ts s = s"
  by (induction ts) (auto simp: Let_def split: option.splits)

lemma so3_mul_inverse:
  "so3 (se3_mul a (se3_inverse b)) = qmul (so3 a) (qconjugate (so3 b))"
  by (simp add: se3_mul_def se3_inverse_def)

lemma initialize_gravity_seed:
  assumes "\<not> g_initialized s"
    and "g_initialized (initialize_gravity b T poses acc ts s)"
  shows "\<exists>timestamp \<in> set ts. \<exists>T_a_c. \<exists>x \<in> set acc.
      map_of poses (to_int64 (timestamp * 1000000000), 0) = Some T_a_c \<and>
      sample_matches (to_int64 (timestamp * 1000000000)) x \<and>
      g_a_init (initialize_gravity b T poses acc ts s) =
        Some (qrotate (qmul (so3 T_a_c) (qconjugate (so3 T))) (vadd (snd x) b))"
  using assms
proof (induction ts arbitrary: s)
  case Nil
  then show ?case by simp
next
  case (Cons t ts)
  let ?k = "(to_int64 (t * 1000000000), 0::nat)"
  show ?case
  proof (cases "map_of poses ?k")
    case None
    with Cons.prems have "g_initialized (initialize_gravity b T poses acc ts s)" by simp
    from Cons.IH [OF Cons.prems(1) this] None show ?thesis by auto
  next
    case (Some T_a_c)
    show ?thesis
    proof (cases "scan_accelerometer b (se3_mul T_a_c (se3_inverse T)) (to_int64 (t * 1000000000)) acc")
      case None
      with Some Cons.prems have "g_initialized (initialize_gravity b T poses acc ts s)"
        by (simp add: Let_def)
      from Cons.IH [OF Cons.prems(1) this] None Some Cons.prems(1) show ?thesis
        by (auto simp: Let_def)
    next
      case (Some g)
      from scan_accelerometer_Some [OF Some] obtain x where x: "x \<in> set acc"
        "sample_matches (to_int64 (t * 1000000000)) x"
        "g = qrotate (so3 (se3_mul T_a_c (se3_inverse T))) (vadd (snd x) b)"
        by blast
      have r: "initialize_gravity b T poses acc (t # ts) s = \<lparr>g_initialized = True, g_a_init = Some g\<rparr>"
        using Some \<open>map_of poses ?k = Some T_a_c\<close> Cons.prems(1)
        by (simp add: Let_def initialize_gravity_done)
      show ?thesis
        using x r \<open>map_of poses ?k = Some T_a_c\<close> by (auto simp: so3_mul_inverse)
    qed
  qed
qed

lemma initialize_gravity_no_match:
  assumes "\<forall>timestamp \<in> set ts. \<forall>x \<in> set acc. \<not> sample_matches (to_int64 (timestamp * 1000000000)) x"
  shows "initialize_gravity b T poses acc ts s = s"
  using assms
proof (induction ts)
  case Nil
  then show ?case by simp
next
  case (Cons t ts)
  then have "\<And>T'. scan_accelerometer b T' (to_int64 (t * 1000000000)) acc = None"
    by (intro scan_accelerometer_None) simp
  with Cons show ?case by (simp add: Let_def split: option.splits)
qed

lemma vadd_zero: "vadd a (0, 0, 0) = a"
  by (cases a) (simp add: vadd_def)

text \<open>
  Claim C4, as the program has it. When the gravity initialisation succeeds, the
  initial gravity is the accelerometer sample plus the accelerometer bias, rotated by
  the orientation of the pose composed with the inverse of the initial transform from
  the inertial sensor to the camera; the sample is one whose time stamp is within
  3000000 ns of the time stamp of that pose, and the pose is one kept in the pose map.
  When the bias is zero, this is the rotated plain sample.
\<close>

theorem gravity_seed_adds_bias:
  assumes "g_initialized (initialize_gravity accl_bias T_i_c_init poses acc timestamps
              \<lparr>g_initialized = False, g_a_init = None\<rparr>)"
  shows "\<exists>timestamp \<in> set timestamps. \<exists>T_a_c. \<exists>x \<in> set acc.
      map_of poses (to_int64 (timestamp * 1000000000), 0) = Some T_a_c \<and>
      sample_matches (to_int64 (timestamp * 1000000000)) x \<and>
      g_a_init (initialize_gravity accl_bias T_i_c_init poses acc timestamps
              \<lparr>g_initialized = False, g_a_init = None\<rparr>) =
        Some (qrotate (qmul (so3 T_a_c) (qconjugate (so3 T_i_c_init))) (vadd (snd x) accl_bias)) \<and>
      (accl_bias = (0, 0, 0) \<longrightarrow>
         g_a_init (initialize_gravity accl_bias T_i_c_init poses acc timestamps
              \<lparr>g_initialized = False, g_a_init = None\<rparr>) =
           Some (qrotate (qmul (so3 T_a_c) (qconjugate (so3 T_i_c_init))) (snd x)))"
proof -
  from initialize_gravity_seed [OF _ assms]
  obtain timestamp T_a_c x where h: "timestamp \<in> set timestamps" "x \<in> set acc"
      "map_of poses (to_int64 (timestamp * 1000000000), 0) = Some T_a_c"
      "sample_matches (to_int64 (timestamp * 1000000000)) x"
      "g_a_init (initialize_gravity accl_bias T_i_c_init poses acc timestamps
              \<lparr>g_initialized = False, g_a_init = None\<rparr>) =
        Some (qrotate (qmul (so3 T_a_c) (qconjugate (so3 T_i_c_init))) (vadd (snd x) accl_bias))"
    by auto
  have "accl_bias = (0, 0, 0) \<longrightarrow>
         g_a_init (initialize_gravity accl_bias T_i_c_init poses acc timestamps
              \<lparr>g_initialized = False, g_a_init = None\<rparr>) =
           Some (qrotate (qmul (so3 T_a_c) (qconjugate (so3 T_i_c_init))) (snd x))"
  proof
    assume z: "accl_bias = (0, 0, 0)"
    have "vadd (snd x) accl_bias = snd x" unfolding z by (rule vadd_zero)
    with h(5) show "g_a_init (initialize_gravity accl_bias T_i_c_init poses acc timestamps
              \<lparr>g_initialized = False, g_a_init = None\<rparr>) =
           Some (qrotate (qmul (so3 T_a_c) (qconjugate (so3 T_i_c_init))) (snd x))"
      by simp
  qed
  with h show ?thesis by blast
qed

text \<open>
  A pose at 0 s turned by half a turn about the vertical axis and a sample \<open>(1, 0, 0)\<close>
  less than a millisecond later. With the bias \<open>(0, 1, 0)\<close> the gravity is the rotated
  sum \<open>(-1, -1, 0)\<close>; with the bias zero it is the rotated sample \<open>(-1, 0, 0)\<close>.
\<close>

theorem gravity_seed_adds_bias_witness:
  "g_a_init (initialize_gravity (0, 1, 0) SE3_identity
       [((0, 0), \<lparr>so3 = half_turn_z, translation = (0, 0, 0)\<rparr>)] [(1 / 1024, (1, 0, 0))] [0]
       \<lparr>g_initialized = False, g_a_init = None\<rparr>) = Some (- 1, - 1, 0) \<and>
   g_a_init (initialize_gravity (0, 0, 0) SE3_identity
       [((0, 0), \<lparr>so3 = half_turn_z, translation = (0, 0, 0)\<rparr>)] [(1 / 1024, (1, 0, 0))] [0]
       \<lparr>g_initialized = False, g_a_init = None\<rparr>) = Some (- 1, 0, 0) \<and>
   qrotate (qmul half_turn_z (qconjugate (so3 SE3_identity))) (1, 0, 0) = (- 1, 0, 0)"
proof -
  have g: "g_initialized (initialize_gravity (0, 1, 0) SE3_identity
       [((0, 0), \<lparr>so3 = half_turn_z, translation = (0, 0, 0)\<rparr>)] [(1 / 1024, (1, 0, 0))] [0]
       \<lparr>g_initialized = False, g_a_init = None\<rparr>)"
    by (simp add: to_int64_def Let_def)
  have g0: "g_initialized (initialize_gravity (0, 0, 0) SE3_identity
       [((0, 0), \<lparr>so3 = half_turn_z, translation = (0, 0, 0)\<rparr>)] [(1 / 1024, (1, 0, 0))] [0]
       \<lparr>g_initialized = False, g_a_init = None\<rparr>)"
    by (simp add: to_int64_def Let_def)
  show ?thesis
    using gravity_seed_adds_bias [OF g] gravity_seed_adds_bias [OF g0]
    by (simp add: to_int64_def SE3_identity_def identity_quaternion_def half_turn_z_def qmul_def qconjugate_def
        qrotate_def vadd_def vscale_def vcross_def Let_def)
qed

text \<open>
  With the bias \<open>(1, 0, 0)\<close>, no rotation and the sample \<open>(0, 0, 1)\<close>, the initial
  gravity is \<open>(1, 0, 1)\<close>; the rotated plain sample is \<open>(0, 0, 1)\<close>.
\<close>

theorem raw_sample_counterexample:
  "g_a_init (initialize_gravity (1, 0, 0) SE3_identity [((0, 0), SE3_identity)]
       [(1 / 1024, (0, 0, 1))] [0] \<lparr>g_initialized = False, g_a_init = None\<rparr>) = Some (1, 0, 1) \<and>
   qrotate (qmul (so3 SE3_identity) (qconjugate (so3 SE3_identity))) (0, 0, 1) = (0, 0, 1)"
  by (simp add: to_int64_def SE3_identity_def identity_quaternion_def qmul_def qconjugate_def se3_mul_def se3_inverse_def
        qrotate_def vadd_def vscale_def vcross_def Let_def)

text \<open>
  Claim C2 fails on the program. Two views at 0 s and 1 s and two accelerometer samples
  with the time stamps 5 and 6, none within 3 ms of a pose: no \<open>CHECK\<close> fails, the
  vector that was never assigned is given to \<open>setG\<close>, and \<open>main\<close> goes on to
  initialise the splines, to add the measurements and to call the optimiser.
\<close>

theorem unseeded_gravity_is_installed:
  "main_continuous_time
     \<lparr>imu_bias_file = Some ((0, 0, 0), (0, 0, 0)),
      input_calibration_dataset = Some [view_at 0, view_at 1],
      gopro_telemetry_json =
        Some \<lparr>accelerometer = [(5, (0, 0, 1)), (6, (0, 0, 1))], gyroscope = []\<rparr>,
      gyro_to_cam_initial_calibration = Some (identity_quaternion, 0),
      spline_error_weighting_json_given = True,
      spline_error_weighting_json =
        Some \<lparr>dt_r3 = 1 / 2, dt_so3 = 1 / 2, var_r3 = 1, var_so3 = 1\<rparr>\<rparr>
   = Inr \<lparr>gravity = None, gravity_was_initialized = False, T_w_i_init = SE3_identity,
          num_knots_so3 = 7, num_knots_r3 = 7,
          corner_frames = [((0, 0), \<lparr>corners = [], track_ids = []\<rparr>)],
          accel_measurements = [((0, 0, 1), 5000000), ((0, 0, 1), 6000000)],
          gyro_measurements = []\<rparr>"
  by (simp add: main_continuous_time_def calibrate_def view_at_def minmax_timestamps_def
      to_int64_def Let_def num_knots_def in_int64_def int64_div_def to_int32_def
      add_corner_frames_def corrected_time_ns_def SE3_identity_def identity_quaternion_def
      qmul_def qconjugate_def se3_mul_def se3_inverse_def qrotate_def vadd_def vscale_def
      vcross_def)

subsection \<open>ExtendTo\<close>

lemma ExtendTo_covered: "domain_covers s time \<Longrightarrow> ExtendTo time d s = Some s"
  by (subst ExtendTo.simps) simp

lemma ExtendTo_appends:
  "0 < knot_spacing s \<Longrightarrow>
   ExtendTo time d s = Some (s\<lparr>knots := knots s @ replicate (knots_missing s time) d\<rparr>)"
proof (induction "knots_missing s time" arbitrary: s)
  case 0
  then have "domain_covers s time"
    by (simp add: knots_missing_def domain_covers_def)
  with 0 show ?case by (simp add: ExtendTo_covered)
next
  case (Suc n)
  let ?s = "s\<lparr>knots := knots s @ [d]\<rparr>"
  from Suc.hyps(2) have nc: "\<not> domain_covers s time"
    by (auto simp: knots_missing_def domain_covers_def)
  from Suc.hyps(2) have n: "n = knots_missing ?s time"
    by (simp add: knots_missing_def)
  have sp: "0 < knot_spacing ?s" using Suc.prems by simp
  have "ExtendTo time d s = ExtendTo time d ?s"
    using nc by (subst ExtendTo.simps) simp
  also have "\<dots> = Some (?s\<lparr>knots := knots ?s @ replicate (knots_missing ?s time) d\<rparr>)"
    by (rule Suc.hyps(1) [OF n sp])
  also have "?s\<lparr>knots := knots ?s @ replicate (knots_missing ?s time) d\<rparr>
      = s\<lparr>knots := knots s @ replicate (knots_missing s time) d\<rparr>"
    using n Suc.hyps(2) [symmetric] by (simp add: replicate_app_Cons_same)
  finally show ?case .
qed

lemma ExtendTo_result_covers:
  assumes "ExtendTo time d s = Some s'"
  shows "domain_covers s' time"
proof (rule ExtendTo.raw_induct [where P = "\<lambda>t d s s'. domain_covers s' t", rotated, OF assms])
  fix f :: "real \<Rightarrow> 'a \<Rightarrow> 'a knot_store \<Rightarrow> 'a knot_store option"
  fix t' d' s1 s2
  assume IH: "\<And>d s b y. f d s b = Some y \<Longrightarrow> domain_covers y d"
    and step: "(if domain_covers s1 t' then Some s1
               else f t' d' (s1\<lparr>knots := knots s1 @ [d']\<rparr>)) = Some s2"
  show "domain_covers s2 t'"
  proof (cases "domain_covers s1 t'")
    case True
    with step show ?thesis by simp
  next
    case False
    with step have "f t' d' (s1\<lparr>knots := knots s1 @ [d']\<rparr>) = Some s2" by simp
    then show ?thesis by (rule IH)
  qed
qed

text \<open>
  Claim C7, for the knot store modelled from the specification. Whenever a call of
  \<open>ExtendTo\<close> returns, a second call with the same time returns the store it is
  given: the knot count and every knot are the same, and with them every pose the
  spline evaluates. For a positive knot spacing the first call does return, and its
  result is the store it is given with the missing knots appended, so that no knot
  that was there is changed.
\<close>

theorem ExtendTo_idempotent:
  "(\<forall>s'. ExtendTo time d s = Some s' \<longrightarrow> ExtendTo time d s' = Some s') \<and>
   (0 < knot_spacing s \<longrightarrow>
      ExtendTo time d s = Some (s\<lparr>knots := knots s @ replicate (knots_missing s time) d\<rparr>))"
  using ExtendTo_result_covers [of time d s] ExtendTo_covered [of _ time d]
    ExtendTo_appends [of s time d]
  by blast

text \<open>
  A store of two knots, half a second apart, of order 5, extended to 1 s: five knots
  are appended, and the second call appends none.
\<close>

theorem ExtendTo_idempotent_witness:
  "ExtendTo 1 (0::real) \<lparr>start_time = 0, knot_spacing = 1 / 2, spline_order = 5, knots = [1, 2]\<rparr>
     = Some \<lparr>start_time = 0, knot_spacing = 1 / 2, spline_order = 5,
             knots = [1, 2] @ replicate 5 0\<rparr> \<and>
   ExtendTo 1 (0::real) \<lparr>start_time = 0, knot_spacing = 1 / 2, spline_order = 5,
             knots = [1, 2] @ replicate 5 0\<rparr>
     = Some \<lparr>start_time = 0, knot_spacing = 1 / 2, spline_order = 5,
             knots = [1, 2] @ replicate 5 0\<rparr>"
proof -
  let ?s = "\<lparr>start_time = 0, knot_spacing = 1 / 2, spline_order = 5, knots = [1, 2::real]\<rparr>"
  have m: "knots_missing ?s 1 = 5" by (simp add: knots_missing_def)
  have a: "ExtendTo 1 0 ?s = Some (?s\<lparr>knots := knots ?s @ replicate (knots_missing ?s 1) 0\<rparr>)"
    using ExtendTo_idempotent [of 1 0 ?s] by simp
  then have b: "ExtendTo 1 0 ?s = Some \<lparr>start_time = 0, knot_spacing = 1 / 2, spline_order = 5,
             knots = [1, 2] @ replicate 5 0\<rparr>"
    by (simp only: m) simp
  from ExtendTo_idempotent [of 1 0 ?s] b show ?thesis by simp
qed

subsection \<open>The landmarks of the charuco calibration\<close>

lemma create_observations_keeps:
  "point (snd (create_observations idx obs (vs, l))) = point l \<and>
   locked (snd (create_observations idx obs (vs, l))) = locked l \<and>
   fst ` set (fst (create_observations idx obs (vs, l))) = fst ` set vs"
proof (induction obs arbitrary: vs l)
  case Nil
  then show ?case by simp
next
  case (Cons a obs)
  obtain v f where a: "a = (v, f)" by (cases a)
  show ?case
  proof (cases "map_of vs v")
    case None
    with a Cons.IH [of vs l] show ?thesis by simp
  next
    case (Some kv)
    then have "v \<in> fst ` set vs" by (metis map_of_eq_None_iff option.distinct(1))
    then have k: "insert v (fst ` set vs) = fst ` set vs" by auto
    show ?thesis
      using a Some k
        Cons.IH [of "alist_update v (kv\<lparr>view_observations := view_observations kv @
                      [\<lparr>of_landmark = idx, pixel = f\<rparr>]\<rparr>) vs"
                   "l\<lparr>observations := observations l @ [\<lparr>of_landmark = idx, pixel = f\<rparr>]\<rparr>"]
      by (simp add: Let_def keys_alist_update)
  qed
qed

lemma seen_in_kept_keys:
  "fst ` set vs = fst ` set vs' \<Longrightarrow> seen_in_kept vs track = seen_in_kept vs' track"
proof -
  assume k: "fst ` set vs = fst ` set vs'"
  have "\<And>k. (map_of vs k \<noteq> None) = (map_of vs' k \<noteq> None)"
    using k by (simp add: map_of_eq_None_iff)
  then show ?thesis by (simp add: seen_in_kept_def)
qed

lemma build_landmarks_points:
  "map point (snd (build_landmarks tracks (vs, lms))) =
     map point lms @ map track_point (filter (seen_in_kept vs) tracks) \<and>
   (list_all locked lms \<longrightarrow> list_all locked (snd (build_landmarks tracks (vs, lms))))"
proof (induction tracks arbitrary: vs lms)
  case Nil
  then show ?case by simp
next
  case (Cons track tracks)
  show ?case
  proof (cases "seen_in_kept vs track")
    case False
    then show ?thesis
      using Cons.IH [of vs lms] by (simp add: seen_in_kept_def Let_def)
  next
    case True
    let ?l0 = "\<lparr>point = track_point track, locked = True, observations = [], reference = None\<rparr>"
    obtain vs' l where c: "create_observations (length lms) (observed_in track) (vs, ?l0) = (vs', l)"
      by (cases "create_observations (length lms) (observed_in track) (vs, ?l0)")
    from create_observations_keeps [of "length lms" "observed_in track" vs ?l0] c
    have l: "point l = track_point track" "locked l" and k: "fst ` set vs' = fst ` set vs"
      by simp_all
    have f: "filter (seen_in_kept vs') tracks = filter (seen_in_kept vs) tracks"
      using seen_in_kept_keys [OF k] by (intro filter_cong) simp_all
    have step: "build_landmarks (track # tracks) (vs, lms) = build_landmarks tracks (vs', lms @ [l])"
      using True c by (simp add: seen_in_kept_def Let_def)
    show ?thesis
      unfolding step using Cons.IH [of vs' "lms @ [l]"] l f True by simp
  qed
qed

lemma list_all_locked_cong:
  "map locked ls' = map locked ls \<Longrightarrow> list_all locked ls' = list_all locked ls"
proof -
  assume m: "map locked ls' = map locked ls"
  have "\<And>xs. list_all (\<lambda>b. b) (map locked xs) = list_all locked xs"
    by (simp add: list.pred_map comp_def)
  with m show ?thesis by metis
qed

lemma set_references_keeps:
  "set_references ls = Inr ls' \<Longrightarrow> map point ls' = map point ls \<and> map locked ls' = map locked ls"
proof (induction ls arbitrary: ls')
  case Nil
  then show ?case by simp
next
  case (Cons l ls)
  then show ?case
    by (auto split: list.splits sum.splits)
qed

lemma charuco_calibrate_landmarks:
  assumes "charuco_calibrate order out view_0 dataset = Inr est"
  shows "\<exists>t0 tend. minmax_timestamps (map snd (dataset_views dataset)) = Inr (t0, tend) \<and>
     map point (kontiki_landmarks_of est) =
       map track_point
         (filter (seen_in_kept (select_views t0 tend (1 / 10) (1 / 10) (dataset_views dataset) []))
            (dataset_tracks dataset)) \<and>
     list_all locked (kontiki_landmarks_of est)"
proof -
  from assms obtain t0 tend where mm: "minmax_timestamps (map snd (dataset_views dataset)) = Inr (t0, tend)"
    by (cases "minmax_timestamps (map snd (dataset_views dataset))")
       (auto simp: charuco_calibrate_def)
  let ?vs = "select_views t0 tend (1 / 10) (1 / 10) (dataset_views dataset) []"
  obtain views lms where b: "build_landmarks (dataset_tracks dataset) (?vs, []) = (views, lms)"
    by (cases "build_landmarks (dataset_tracks dataset) (?vs, [])")
  from assms mm b obtain lms' where r: "set_references lms = Inr lms'"
    and e: "kontiki_landmarks_of est = lms'"
    by (auto simp: charuco_calibrate_def Let_def split: sum.splits option.splits)
  from build_landmarks_points [of "dataset_tracks dataset" ?vs "[]"] b
  have p: "map point lms = map track_point (filter (seen_in_kept ?vs) (dataset_tracks dataset))"
    and l: "list_all locked lms" by simp_all
  from set_references_keeps [OF r] have "map point lms' = map point lms" "map locked lms' = map locked lms"
    by simp_all
  with p l e list_all_locked_cong [of lms' lms]
  have "map point (kontiki_landmarks_of est) =
       map track_point (filter (seen_in_kept ?vs) (dataset_tracks dataset))"
    and "list_all locked (kontiki_landmarks_of est)"
    by simp_all
  with mm show ?thesis by blast
qed

text \<open>
  What the source decides of claim C8. Every landmark the charuco calibration hands to
  the estimator is locked when it is made, and its position is the point of its track:
  the landmarks are the tracks seen in at least two kept views, in order; creating the
  observations and setting the references leave lock and position as they were made.
  What the solver, the bundle adjustment and the diagnostics do to a landmark afterwards
  is decided by classes that are not among the source files, and is not stated here.
\<close>

lemma main_charuco_landmarks_locked:
  assumes "main_charuco order inp = Inr est"
  shows "list_all locked (kontiki_landmarks_of est) \<and>
    (\<exists>t0 tend. minmax_timestamps (map snd (dataset_views (recon_calib_dataset inp))) = Inr (t0, tend) \<and>
       map point (kontiki_landmarks_of est) =
         map track_point
           (filter (seen_in_kept (select_views t0 tend (1 / 10) (1 / 10)
                      (dataset_views (recon_calib_dataset inp)) []))
              (dataset_tracks (recon_calib_dataset inp))))"
proof -
  from assms obtain out view_0 where
    c: "charuco_calibrate order out view_0 (recon_calib_dataset inp) = Inr est"
    by (auto simp: main_charuco_def Let_def split: option.splits if_splits)
  from charuco_calibrate_landmarks [OF c] show ?thesis by blast
qed

lemma board_run_calibrated:
  "charuco_calibrate 5 out (Some identity_matrix) board_run =
     Inr \<lparr>console = out,
          r3_traj_spline =
            \<lparr>start_time = 0, knot_spacing = 1 / 10, spline_order = 5,
             knots = replicate 15 (0, 0, 0) @ [(0, 0, 0)]\<rparr>,
          so3_traj_spline =
            \<lparr>start_time = 0, knot_spacing = 1 / 10, spline_order = 5,
             knots = replicate 15 \<lparr>qw = 1, qx = 0, qy = 0, qz = 0\<rparr> @
                     [\<lparr>qw = 1, qx = 0, qy = 0, qz = 0\<rparr>]\<rparr>,
          kontiki_views_of =
            [(11, \<lparr>timestamp = 1 / 2, view_observations = [\<lparr>of_landmark = 0, pixel = (6, 6)\<rparr>]\<rparr>),
             (12, \<lparr>timestamp = 3 / 4, view_observations = [\<lparr>of_landmark = 0, pixel = (7, 7)\<rparr>]\<rparr>)],
          kontiki_landmarks_of =
            [\<lparr>point = (0, 0, 0, 1), locked = True,
              observations = [\<lparr>of_landmark = 0, pixel = (6, 6)\<rparr>,
                              \<lparr>of_landmark = 0, pixel = (7, 7)\<rparr>],
              reference = Some \<lparr>of_landmark = 0, pixel = (6, 6)\<rparr>\<rparr>],
          cam_kontiki = \<lparr>calibration_matrix = identity_matrix,
                         relative_orientation_locked = True, relative_position_locked = True\<rparr>,
          measurements = [\<lparr>of_landmark = 0, pixel = (6, 6)\<rparr>,
                          \<lparr>of_landmark = 0, pixel = (7, 7)\<rparr>]\<rparr>"
proof -
  have mm: "minmax_timestamps (map snd (dataset_views board_run)) = Inr (0, 1)"
    by (simp add: board_run_def minmax_timestamps_def)
  have sv: "select_views 0 1 (1 / 10) (1 / 10) (dataset_views board_run) [] =
      [(11, \<lparr>timestamp = 1 / 2, view_observations = []\<rparr>),
       (12, \<lparr>timestamp = 3 / 4, view_observations = []\<rparr>)]"
    by (simp add: board_run_def)
  have bl: "build_landmarks (dataset_tracks board_run)
       ([(11, \<lparr>timestamp = 1 / 2, view_observations = []\<rparr>),
         (12, \<lparr>timestamp = 3 / 4, view_observations = []\<rparr>)], []) =
      ([(11, \<lparr>timestamp = 1 / 2, view_observations = [\<lparr>of_landmark = 0, pixel = (6, 6)\<rparr>]\<rparr>),
        (12, \<lparr>timestamp = 3 / 4, view_observations = [\<lparr>of_landmark = 0, pixel = (7, 7)\<rparr>]\<rparr>)],
       [\<lparr>point = (0, 0, 0, 1), locked = True,
         observations = [\<lparr>of_landmark = 0, pixel = (6, 6)\<rparr>,
                         \<lparr>of_landmark = 0, pixel = (7, 7)\<rparr>],
         reference = None\<rparr>])"
    by (simp add: board_run_def Let_def)
  have e1: "\<And>d::'a. ExtendTo 1 d \<lparr>start_time = 0, knot_spacing = 1 / 10, spline_order = 5, knots = []\<rparr>
      = Some \<lparr>start_time = 0, knot_spacing = 1 / 10, spline_order = 5, knots = replicate 15 d\<rparr>"
    by (subst ExtendTo_appends) (simp_all add: knots_missing_def)
  have e2: "\<And>d::'a. ExtendTo (11 / 10) d
        \<lparr>start_time = 0, knot_spacing = 1 / 10, spline_order = 5, knots = replicate 15 d\<rparr>
      = Some \<lparr>start_time = 0, knot_spacing = 1 / 10, spline_order = 5,
               knots = replicate 15 d @ [d]\<rparr>"
    by (subst ExtendTo_appends) (simp_all add: knots_missing_def)
  show ?thesis
    unfolding charuco_calibrate_def Let_def mm
    by (simp add: sv bl e1 e2 option_to_sum_def)
qed

subsection \<open>Inputs that cannot be read\<close>

text \<open>
  In the continuous-time calibration each of the five reads is under a \<open>CHECK\<close>: a
  read that fails ends the program with a message, and nothing is computed.
\<close>

lemma main_continuous_time_failed_read_is_fatal:
  assumes "imu_bias_file inp = None \<or> input_calibration_dataset inp = None \<or>
     gopro_telemetry_json inp = None \<or> gyro_to_cam_initial_calibration inp = None \<or>
     spline_error_weighting_json inp = None"
  shows "\<exists>msg. main_continuous_time inp = Inl (CheckFailed msg)"
  using assms by (auto simp: main_continuous_time_def split: option.splits prod.splits)

text \<open>
  In the charuco calibration the telemetry decides nothing but one line of output:
  whatever the video holds, the run with a telemetry file that cannot be read is the
  run with one that can, with the line \<open>Could not read\<close> printed first.
\<close>

lemma main_charuco_unread_telemetry_continues:
  assumes "cam_calib_recon inp = Some view_0" and "detector_params_read inp"
  shows "main_charuco order (inp\<lparr>telemetry_json := None\<rparr>) =
           charuco_calibrate order [''Could not read: gopro_telemetry_json''] view_0
             (recon_calib_dataset inp) \<and>
         main_charuco order (inp\<lparr>telemetry_json := Some telemetry_data\<rparr>) =
           charuco_calibrate order [] view_0 (recon_calib_dataset inp)"
  using assms by (simp add: main_charuco_def)

text \<open>
  Claim C5 fails on \<open>create_imu_camera_charuco.cc\<close>. With a telemetry file that
  cannot be read and every other input in order, the program prints one line and goes
  on: it selects the views, builds the landmarks, extends the splines, registers the
  measurements and calls the solver.
\<close>

theorem unread_telemetry_is_ignored:
  "main_charuco 5 \<lparr>cam_calib_recon = Some (Some identity_matrix), telemetry_json = None,
        detector_params_read = True, recon_calib_dataset = board_run\<rparr> =
     Inr \<lparr>console = [''Could not read: gopro_telemetry_json''],
          r3_traj_spline =
            \<lparr>start_time = 0, knot_spacing = 1 / 10, spline_order = 5,
             knots = replicate 15 (0, 0, 0) @ [(0, 0, 0)]\<rparr>,
          so3_traj_spline =
            \<lparr>start_time = 0, knot_spacing = 1 / 10, spline_order = 5,
             knots = replicate 15 \<lparr>qw = 1, qx = 0, qy = 0, qz = 0\<rparr> @
                     [\<lparr>qw = 1, qx = 0, qy = 0, qz = 0\<rparr>]\<rparr>,
          kontiki_views_of =
            [(11, \<lparr>timestamp = 1 / 2, view_observations = [\<lparr>of_landmark = 0, pixel = (6, 6)\<rparr>]\<rparr>),
             (12, \<lparr>timestamp = 3 / 4, view_observations = [\<lparr>of_landmark = 0, pixel = (7, 7)\<rparr>]\<rparr>)],
          kontiki_landmarks_of =
            [\<lparr>point = (0, 0, 0, 1), locked = True,
              observations = [\<lparr>of_landmark = 0, pixel = (6, 6)\<rparr>,
                              \<lparr>of_landmark = 0, pixel = (7, 7)\<rparr>],
              reference = Some \<lparr>of_landmark = 0, pixel = (6, 6)\<rparr>\<rparr>],
          cam_kontiki = \<lparr>calibration_matrix = identity_matrix,
                         relative_orientation_locked = True, relative_position_locked = True\<rparr>,
          measurements = [\<lparr>of_landmark = 0, pixel = (6, 6)\<rparr>,
                          \<lparr>of_landmark = 0, pixel = (7, 7)\<rparr>]\<rparr>"
  by (simp add: main_charuco_def board_run_calibrated)

end
